theory Spec2Isabelle
  imports Main "HOL-Library.Word"
begin

section \<open>Machine types\<close>

text \<open>
  The header computes with C \<open>int\<close> (buffer credits, user credits, error codes),
  \<open>unsigned int\<close> (the \<open>27U\<close>, \<open>8U\<close>, \<open>6U\<close> block counts) and \<open>unsigned long\<close>
  (a handle pointer cast to a number). All three are words; an \<open>int\<close> is read with
  \<open>sint\<close>, so \<open>a < b\<close> on two ints is \<open>sint a < sint b\<close>, and \<open>+\<close>, \<open>-\<close>, \<open>*\<close> wrap
  around as the kernel's two's complement arithmetic does.
\<close>

type_synonym cint = "32 word"
type_synonym cuint = "32 word"
type_synonym addr = "64 word"

section \<open>Build configuration\<close>

text \<open>
  The preprocessor symbols the header tests with \<open>#ifdef\<close>, and \<open>MAXQUOTAS\<close>, a constant
  of \<open>linux/quota.h\<close> that the header uses and does not define: all are parameters.
\<close>

record kconfig =
  CONFIG_EXT4_FS_SNAPSHOT :: bool
  CONFIG_EXT4_FS_SNAPSHOT_JOURNAL_CREDITS :: bool
  CONFIG_QUOTA :: bool
  MAXQUOTAS :: cuint

section \<open>Data model\<close>

text \<open>
  \<open>test_opt(sb, DATA_FLAGS)\<close> masks the mount options with the two data-mode bits; the
  header compares the result with the three mode constants. The fourth value is the
  masked word with neither bit set.
\<close>

datatype data_flags =
  DATA_FLAGS_NONE
  | EXT4_MOUNT_JOURNAL_DATA
  | EXT4_MOUNT_ORDERED_DATA
  | EXT4_MOUNT_WRITEBACK_DATA

text \<open>
  What the header reads of a super block, each field named after the macro of \<open>ext4.h\<close> or
  \<open>snapshot.h\<close> that reads it: \<open>EXT4_SNAPSHOTS(sb)\<close>,
  \<open>EXT4_HAS_INCOMPAT_FEATURE(sb, EXT4_FEATURE_INCOMPAT_EXTENTS)\<close>, \<open>test_opt(sb, QUOTA)\<close>,
  \<open>test_opt(sb, DATA_FLAGS)\<close> and \<open>EXT4_SB(sb)->s_journal\<close> (a pointer, 0 when there is no
  journal).
\<close>

record super_block =
  EXT4_SNAPSHOTS :: bool
  INCOMPAT_EXTENTS :: bool
  opt_QUOTA :: bool
  opt_DATA_FLAGS :: data_flags
  s_journal :: addr

text \<open>
  What the header reads of an inode: its super block, \<open>S_ISREG(inode->i_mode)\<close> and
  \<open>ext4_test_inode_flag(inode, EXT4_INODE_JOURNAL_DATA)\<close>.
\<close>

record inode =
  i_sb :: super_block
  S_ISREG :: bool
  INODE_JOURNAL_DATA :: bool

record journal_s =
  j_private :: super_block

record transaction_s =
  t_journal :: journal_s
  t_tid :: "32 word"

text \<open>
  \<open>handle_t\<close>, a structure of \<open>linux/jbd2.h\<close>; what the header reads and writes of it.
  The three credit fields are C \<open>int\<close>, as the \<open>int nblocks\<close> and \<open>int needed\<close> they
  are assigned from and compared with; \<open>h_sync\<close> and \<open>h_aborted\<close> are one-bit flags. The
  super block of a handle is \<open>handle->h_transaction->t_journal->j_private\<close>.
\<close>

record handle_s =
  h_transaction :: transaction_s
  h_buffer_credits :: cint
  h_base_credits :: cint
  h_user_credits :: cint
  h_sync :: bool
  h_aborted :: bool

text \<open>
  The journal layer (jbd2) is called, not defined, by the header, so its three entry
  points are a parameter. An entry point gets the handle and the requested credits and
  returns its error code (0 for success) with the handle as it leaves it.
\<close>

record jbd2 =
  jbd2_journal_extend :: "handle_s \<Rightarrow> cint \<Rightarrow> cint \<times> handle_s"
  jbd2_journal_restart :: "handle_s \<Rightarrow> cint \<Rightarrow> cint \<times> handle_s"
  is_handle_aborted :: "handle_s \<Rightarrow> bool"

text \<open>
  The state: the handles in memory, by address, and the calls made into the journal
  layer so far, oldest first.
\<close>

datatype jbd2_call = Jbd2_extend addr cint | Jbd2_restart addr cint

record kstate =
  handles :: "addr \<Rightarrow> handle_s"
  jbd2_log :: "jbd2_call list"

section \<open>Credits of a data transaction\<close>

definition EXT4_SINGLEDATA_TRANS_BLOCKS :: "super_block \<Rightarrow> cuint" where
  "EXT4_SINGLEDATA_TRANS_BLOCKS sb = (if INCOMPAT_EXTENTS sb then 27 else 8)"

definition EXT4_XATTR_TRANS_BLOCKS :: cuint where
  "EXT4_XATTR_TRANS_BLOCKS = 6"

definition EXT4_QUOTA_TRANS_BLOCKS :: "kconfig \<Rightarrow> super_block \<Rightarrow> cuint" where
  "EXT4_QUOTA_TRANS_BLOCKS k sb =
     (if CONFIG_QUOTA k then (if opt_QUOTA sb then 1 else 0) else 0)"

definition EXT4_MAXQUOTAS_TRANS_BLOCKS :: "kconfig \<Rightarrow> super_block \<Rightarrow> cuint" where
  "EXT4_MAXQUOTAS_TRANS_BLOCKS k sb = MAXQUOTAS k * EXT4_QUOTA_TRANS_BLOCKS k sb"

definition EXT4_DATA_TRANS_BLOCKS :: "kconfig \<Rightarrow> super_block \<Rightarrow> cuint" where
  "EXT4_DATA_TRANS_BLOCKS k sb =
     EXT4_SINGLEDATA_TRANS_BLOCKS sb + EXT4_XATTR_TRANS_BLOCKS - 2
       + EXT4_MAXQUOTAS_TRANS_BLOCKS k sb"

section \<open>Snapshot COW credits\<close>

text \<open>
  The credit macros are text: their arithmetic is that of the place where they are
  expanded. They are therefore defined over any commutative semiring with numerals, which
  the natural numbers, the integers and the 32-bit words all are. Every use in the header
  expands them on an \<open>int\<close>.
\<close>

definition EXT4_WRITE_CREDITS :: "'a::comm_semiring_1" where
  "EXT4_WRITE_CREDITS = 1"

definition EXT4_ALLOC_CREDITS :: "'a::comm_semiring_1" where
  "EXT4_ALLOC_CREDITS = 3"

definition EXT4_COW_BITMAP_CREDITS :: "'a::comm_semiring_1" where
  "EXT4_COW_BITMAP_CREDITS = 3 * EXT4_ALLOC_CREDITS"

definition EXT4_COW_BLOCK_CREDITS :: "'a::comm_semiring_1" where
  "EXT4_COW_BLOCK_CREDITS = 3 * EXT4_ALLOC_CREDITS + 2 * EXT4_WRITE_CREDITS"

definition EXT4_COW_CREDITS :: "'a::comm_semiring_1" where
  "EXT4_COW_CREDITS = EXT4_COW_BLOCK_CREDITS + EXT4_COW_BITMAP_CREDITS"

definition EXT4_SNAPSHOT_CREDITS :: "'a::comm_semiring_1" where
  "EXT4_SNAPSHOT_CREDITS = 3 * EXT4_WRITE_CREDITS"

definition EXT4_SNAPSHOT_TRANS_BLOCKS :: "'a::comm_semiring_1 \<Rightarrow> 'a" where
  "EXT4_SNAPSHOT_TRANS_BLOCKS n = n * (1 + EXT4_COW_CREDITS) + EXT4_SNAPSHOT_CREDITS"

definition EXT4_SNAPSHOT_START_TRANS_BLOCKS :: "'a::comm_semiring_1 \<Rightarrow> 'a" where
  "EXT4_SNAPSHOT_START_TRANS_BLOCKS n =
     n * (1 + EXT4_COW_CREDITS) + 2 * EXT4_SNAPSHOT_CREDITS"

definition EXT4_SNAPSHOT_HAS_TRANS_BLOCKS :: "handle_s \<Rightarrow> cint \<Rightarrow> bool" where
  "EXT4_SNAPSHOT_HAS_TRANS_BLOCKS handle n =
     (sint (EXT4_SNAPSHOT_TRANS_BLOCKS n) \<le> sint (h_buffer_credits handle)
      \<and> sint n \<le> sint (h_user_credits handle))"

section \<open>Handles\<close>

definition EXT4_NOJOURNAL_MAX_REF_COUNT :: addr where
  "EXT4_NOJOURNAL_MAX_REF_COUNT = 4096"

definition ext4_handle_valid :: "addr \<Rightarrow> bool" where
  "ext4_handle_valid handle =
     (if handle < EXT4_NOJOURNAL_MAX_REF_COUNT then False else True)"

definition ext4_handle_sync :: "kstate \<Rightarrow> addr \<Rightarrow> kstate" where
  "ext4_handle_sync s handle =
     (if ext4_handle_valid handle
      then s\<lparr>handles := (handles s)(handle := (handles s handle)\<lparr>h_sync := True\<rparr>)\<rparr>
      else s)"

definition ext4_handle_is_aborted :: "jbd2 \<Rightarrow> kstate \<Rightarrow> addr \<Rightarrow> bool" where
  "ext4_handle_is_aborted J s handle =
     (if ext4_handle_valid handle then is_handle_aborted J (handles s handle) else False)"

text \<open>\<open>sb = handle->h_transaction->t_journal->j_private\<close>.\<close>

definition handle_sb :: "handle_s \<Rightarrow> super_block" where
  "handle_sb h = j_private (t_journal (h_transaction h))"

definition ext4_handle_has_enough_credits :: "kconfig \<Rightarrow> kstate \<Rightarrow> addr \<Rightarrow> cint \<Rightarrow> bool" where
  "ext4_handle_has_enough_credits k s handle needed =
     (if CONFIG_EXT4_FS_SNAPSHOT_JOURNAL_CREDITS k then
        (if \<not> ext4_handle_valid handle then True
         else if EXT4_SNAPSHOTS (handle_sb (handles s handle))
         then EXT4_SNAPSHOT_HAS_TRANS_BLOCKS (handles s handle) needed
         else if sint (h_buffer_credits (handles s handle)) < sint needed then False
         else True)
      else
        (if ext4_handle_valid handle
            \<and> sint (h_buffer_credits (handles s handle)) < sint needed then False
         else True))"

section \<open>Extending and restarting a transaction\<close>

text \<open>
  A call into the journal layer: the handle in memory is replaced by the one the journal
  layer returns, and the call is logged.
\<close>

definition call_jbd2_journal_extend :: "jbd2 \<Rightarrow> kstate \<Rightarrow> addr \<Rightarrow> cint \<Rightarrow> cint \<times> kstate" where
  "call_jbd2_journal_extend J s handle credits =
     (case jbd2_journal_extend J (handles s handle) credits of
        (err, h') \<Rightarrow>
          (err, s\<lparr>handles := (handles s)(handle := h'),
                  jbd2_log := jbd2_log s @ [Jbd2_extend handle credits]\<rparr>))"

definition call_jbd2_journal_restart :: "jbd2 \<Rightarrow> kstate \<Rightarrow> addr \<Rightarrow> cint \<Rightarrow> cint \<times> kstate" where
  "call_jbd2_journal_restart J s handle credits =
     (case jbd2_journal_restart J (handles s handle) credits of
        (err, h') \<Rightarrow>
          (err, s\<lparr>handles := (handles s)(handle := h'),
                  jbd2_log := jbd2_log s @ [Jbd2_restart handle credits]\<rparr>))"

text \<open>
  \<open>__ext4_journal_extend\<close> (an Isabelle name cannot begin with an underscore). Its
  \<open>where\<close> argument only feeds \<open>ext4_journal_trace\<close>, which changes no state and is left
  out. \<open>sb\<close> is read once, before the call into the journal layer.
\<close>

definition uu_ext4_journal_extend :: "jbd2 \<Rightarrow> kstate \<Rightarrow> addr \<Rightarrow> cint \<Rightarrow> cint \<times> kstate" where
  "uu_ext4_journal_extend J s handle nblocks =
     (if \<not> ext4_handle_valid handle then (0, s)
      else
        let sb = handle_sb (handles s handle);
            credits =
              (if EXT4_SNAPSHOTS sb
               then EXT4_SNAPSHOT_TRANS_BLOCKS (h_user_credits (handles s handle) + nblocks)
                      - h_buffer_credits (handles s handle)
               else nblocks)
        in case (if 0 < sint credits then call_jbd2_journal_extend J s handle credits
                 else (0, s)) of
             (err, s1) \<Rightarrow>
               if EXT4_SNAPSHOTS sb \<and> err = 0
               then (err, s1\<lparr>handles := (handles s1)(handle := (handles s1 handle)
                       \<lparr>h_base_credits := h_base_credits (handles s1 handle) + nblocks,
                        h_user_credits := h_user_credits (handles s1 handle) + nblocks\<rparr>)\<rparr>)
               else (err, s1))"

text \<open>\<open>__ext4_journal_restart\<close>.\<close>

definition uu_ext4_journal_restart :: "jbd2 \<Rightarrow> kstate \<Rightarrow> addr \<Rightarrow> cint \<Rightarrow> cint \<times> kstate" where
  "uu_ext4_journal_restart J s handle nblocks =
     (if \<not> ext4_handle_valid handle then (0, s)
      else
        let sb = handle_sb (handles s handle);
            credits =
              (if EXT4_SNAPSHOTS sb then EXT4_SNAPSHOT_START_TRANS_BLOCKS nblocks
               else nblocks)
        in case call_jbd2_journal_restart J s handle credits of
             (err, s1) \<Rightarrow>
               if EXT4_SNAPSHOTS sb \<and> err = 0
               then (err, s1\<lparr>handles := (handles s1)(handle := (handles s1 handle)
                       \<lparr>h_base_credits := nblocks, h_user_credits := nblocks\<rparr>)\<rparr>)
               else (err, s1))"

text \<open>
  \<open>ext4_journal_extend\<close> and \<open>ext4_journal_restart\<close>: macros over the two functions above
  when \<open>CONFIG_EXT4_FS_SNAPSHOT_JOURNAL_CREDITS\<close> is set, and plain guarded calls into the
  journal layer otherwise.
\<close>

definition ext4_journal_extend :: "kconfig \<Rightarrow> jbd2 \<Rightarrow> kstate \<Rightarrow> addr \<Rightarrow> cint \<Rightarrow> cint \<times> kstate" where
  "ext4_journal_extend k J s handle nblocks =
     (if CONFIG_EXT4_FS_SNAPSHOT_JOURNAL_CREDITS k
      then uu_ext4_journal_extend J s handle nblocks
      else if ext4_handle_valid handle then call_jbd2_journal_extend J s handle nblocks
      else (0, s))"

definition ext4_journal_restart :: "kconfig \<Rightarrow> jbd2 \<Rightarrow> kstate \<Rightarrow> addr \<Rightarrow> cint \<Rightarrow> cint \<times> kstate" where
  "ext4_journal_restart k J s handle nblocks =
     (if CONFIG_EXT4_FS_SNAPSHOT_JOURNAL_CREDITS k
      then uu_ext4_journal_restart J s handle nblocks
      else if ext4_handle_valid handle then call_jbd2_journal_restart J s handle nblocks
      else (0, s))"

section \<open>Data journaling mode of an inode\<close>

definition EXT4_JOURNAL :: "inode \<Rightarrow> addr" where
  "EXT4_JOURNAL inode = s_journal (i_sb inode)"

definition ext4_should_journal_data :: "kconfig \<Rightarrow> inode \<Rightarrow> bool" where
  "ext4_should_journal_data k inode =
     (if EXT4_JOURNAL inode = 0 then False
      else if \<not> S_ISREG inode then True
      else if CONFIG_EXT4_FS_SNAPSHOT k \<and> EXT4_SNAPSHOTS (i_sb inode) then False
      else if opt_DATA_FLAGS (i_sb inode) = EXT4_MOUNT_JOURNAL_DATA then True
      else if INODE_JOURNAL_DATA inode then True
      else False)"

definition ext4_should_order_data :: "kconfig \<Rightarrow> inode \<Rightarrow> bool" where
  "ext4_should_order_data k inode =
     (if EXT4_JOURNAL inode = 0 then False
      else if \<not> S_ISREG inode then False
      else if CONFIG_EXT4_FS_SNAPSHOT k \<and> EXT4_SNAPSHOTS (i_sb inode) then True
      else if INODE_JOURNAL_DATA inode then False
      else if opt_DATA_FLAGS (i_sb inode) = EXT4_MOUNT_ORDERED_DATA then True
      else False)"

definition ext4_should_writeback_data :: "kconfig \<Rightarrow> inode \<Rightarrow> bool" where
  "ext4_should_writeback_data k inode =
     (if EXT4_JOURNAL inode = 0 then True
      else if CONFIG_EXT4_FS_SNAPSHOT k \<and> EXT4_SNAPSHOTS (i_sb inode) then False
      else if \<not> S_ISREG inode then False
      else if INODE_JOURNAL_DATA inode then False
      else if opt_DATA_FLAGS (i_sb inode) = EXT4_MOUNT_WRITEBACK_DATA then True
      else False)"

section \<open>The start of a transaction and the journal layer's grants\<close>

text \<open>
  Modelled from the spec: \<open>start(n_user_ops)\<close>. The header only declares
  \<open>__ext4_journal_start\<close>; its body is in another file. With snapshots disabled it
  requests \<open>n_user_ops\<close> buffer credits from the Journal; with snapshots enabled it
  requests \<open>snapshot_start_credits(n_user_ops)\<close>.
\<close>

definition journal_start_credits :: "super_block \<Rightarrow> cint \<Rightarrow> cint" where
  "journal_start_credits sb nblocks =
     (if EXT4_SNAPSHOTS sb then EXT4_SNAPSHOT_START_TRANS_BLOCKS nblocks else nblocks)"

text \<open>
  Modelled from the spec: the handle a successful \<open>start(n_user_ops)\<close> returns. It holds
  the credits requested and, with snapshots enabled, \<open>user_credits = base_credits =
  n_user_ops\<close>; the two flags are clear, and with snapshots disabled the two counts, which
  the spec leaves alone, are 0.
\<close>

definition journal_start_handle :: "transaction_s \<Rightarrow> cint \<Rightarrow> handle_s" where
  "journal_start_handle tr nblocks =
     \<lparr>h_transaction = tr,
      h_buffer_credits = journal_start_credits (j_private (t_journal tr)) nblocks,
      h_base_credits = (if EXT4_SNAPSHOTS (j_private (t_journal tr)) then nblocks else 0),
      h_user_credits = (if EXT4_SNAPSHOTS (j_private (t_journal tr)) then nblocks else 0),
      h_sync = False,
      h_aborted = False\<rparr>"

text \<open>
  Modelled from the spec: what the Journal does to a handle when it accepts a request.
  A successful extend adds the credits asked for to the granted buffer credits; a
  successful restart grants the credits asked for. The user and base credits belong to
  the wrappers, and the Journal leaves them as they are.
\<close>

definition jbd2_extend_grants :: "jbd2 \<Rightarrow> handle_s \<Rightarrow> cint \<Rightarrow> bool" where
  "jbd2_extend_grants J h credits =
     (case jbd2_journal_extend J h credits of
        (err, h') \<Rightarrow>
          if err = 0
          then h_buffer_credits h' = h_buffer_credits h + credits
               \<and> h_user_credits h' = h_user_credits h
               \<and> h_base_credits h' = h_base_credits h
          else True)"



section \<open>Concrete configurations, journals and states\<close>

text \<open>A build with every option set, and one with none; two quota types.\<close>

definition kconfig_all :: kconfig where
  "kconfig_all =
     \<lparr>CONFIG_EXT4_FS_SNAPSHOT = True, CONFIG_EXT4_FS_SNAPSHOT_JOURNAL_CREDITS = True,
      CONFIG_QUOTA = True, MAXQUOTAS = 2\<rparr>"

definition kconfig_none :: kconfig where
  "kconfig_none =
     \<lparr>CONFIG_EXT4_FS_SNAPSHOT = False, CONFIG_EXT4_FS_SNAPSHOT_JOURNAL_CREDITS = False,
      CONFIG_QUOTA = False, MAXQUOTAS = 2\<rparr>"

text \<open>
  A file system with snapshots and extents, mounted with the journal-data mode, and one
  with neither, mounted with the writeback-data mode; both have a journal and no quota.
\<close>

definition sb_snapshots :: super_block where
  "sb_snapshots =
     \<lparr>EXT4_SNAPSHOTS = True, INCOMPAT_EXTENTS = True, opt_QUOTA = False,
      opt_DATA_FLAGS = EXT4_MOUNT_JOURNAL_DATA, s_journal = 0x8000\<rparr>"

definition sb_plain :: super_block where
  "sb_plain =
     \<lparr>EXT4_SNAPSHOTS = False, INCOMPAT_EXTENTS = False, opt_QUOTA = False,
      opt_DATA_FLAGS = EXT4_MOUNT_WRITEBACK_DATA, s_journal = 0x8000\<rparr>"

definition transaction_on :: "super_block \<Rightarrow> transaction_s" where
  "transaction_on sb = \<lparr>t_journal = \<lparr>j_private = sb\<rparr>, t_tid = 1\<rparr>"

text \<open>A regular file of the snapshot file system with the journal-data inode flag.\<close>

definition inode_regular :: inode where
  "inode_regular = \<lparr>i_sb = sb_snapshots, S_ISREG = True, INODE_JOURNAL_DATA = True\<rparr>"

text \<open>A handle with given buffer and user credits, and the state that holds it.\<close>

definition handle_with :: "super_block \<Rightarrow> cint \<Rightarrow> cint \<Rightarrow> bool \<Rightarrow> handle_s" where
  "handle_with sb buffer user aborted =
     \<lparr>h_transaction = transaction_on sb, h_buffer_credits = buffer, h_base_credits = user,
      h_user_credits = user, h_sync = False, h_aborted = aborted\<rparr>"

definition state_of :: "handle_s \<Rightarrow> kstate" where
  "state_of h = \<lparr>handles = (\<lambda>a. h), jbd2_log = []\<rparr>"

text \<open>
  A journal layer that accepts every request, and one that refuses every request and
  marks the handle aborted. Both report the handle's own abort flag.
\<close>

definition jbd2_granting :: jbd2 where
  "jbd2_granting =
     \<lparr>jbd2_journal_extend = (\<lambda>h n. (0, h\<lparr>h_buffer_credits := h_buffer_credits h + n\<rparr>)),
      jbd2_journal_restart = (\<lambda>h n. (0, h\<lparr>h_buffer_credits := n\<rparr>)),
      is_handle_aborted = h_aborted\<rparr>"

definition jbd2_refusing :: jbd2 where
  "jbd2_refusing =
     \<lparr>jbd2_journal_extend = (\<lambda>h n. (- 5, h\<lparr>h_aborted := True\<rparr>)),
      jbd2_journal_restart = (\<lambda>h n. (- 5, h\<lparr>h_aborted := True\<rparr>)),
      is_handle_aborted = h_aborted\<rparr>"

section \<open>Unfolding and arithmetic lemmas\<close>

lemmas cow_defs =
  EXT4_WRITE_CREDITS_def EXT4_ALLOC_CREDITS_def EXT4_COW_BITMAP_CREDITS_def
  EXT4_COW_BLOCK_CREDITS_def EXT4_COW_CREDITS_def EXT4_SNAPSHOT_CREDITS_def

lemmas valid_defs = ext4_handle_valid_def EXT4_NOJOURNAL_MAX_REF_COUNT_def

lemmas example_defs =
  kconfig_all_def kconfig_none_def sb_snapshots_def sb_plain_def transaction_on_def
  inode_regular_def handle_with_def state_of_def jbd2_granting_def jbd2_refusing_def

lemma trans_blocks_eq: "EXT4_SNAPSHOT_TRANS_BLOCKS (n::'a::comm_semiring_1) = 21 * n + 3"
  by (simp add: EXT4_SNAPSHOT_TRANS_BLOCKS_def cow_defs mult.commute)

lemma start_blocks_eq:
  "EXT4_SNAPSHOT_START_TRANS_BLOCKS (n::'a::comm_semiring_1) = 21 * n + 6"
  by (simp add: EXT4_SNAPSHOT_START_TRANS_BLOCKS_def cow_defs mult.commute)

text \<open>An integer in the range of \<open>int\<close> is the value of the word it is stored in.\<close>

lemma sint_in_range:
  "- 2147483648 \<le> k \<Longrightarrow> k \<le> 2147483647 \<Longrightarrow> sint (word_of_int k :: cint) = k"
  by (simp add: sint_sbintrunc' signed_take_bit_int_eq_self)

text \<open>Where \<open>21 * n + 3\<close> fits an \<open>int\<close>, the macro on an \<open>int\<close> computes that integer.\<close>

lemma sint_trans_blocks:
  fixes n :: cint
  assumes "- 2147483648 \<le> 21 * sint n + 3" and "21 * sint n + 3 \<le> 2147483647"
  shows "sint (EXT4_SNAPSHOT_TRANS_BLOCKS n) = 21 * sint n + 3"
proof -
  have "EXT4_SNAPSHOT_TRANS_BLOCKS n = word_of_int (21 * sint n + 3)"
    by (simp add: trans_blocks_eq)
  then show ?thesis
    using assms by (simp only: sint_in_range)
qed

lemma sint_start_blocks:
  fixes n :: cint
  assumes "- 2147483648 \<le> 21 * sint n + 6" and "21 * sint n + 6 \<le> 2147483647"
  shows "sint (EXT4_SNAPSHOT_START_TRANS_BLOCKS n) = 21 * sint n + 6"
proof -
  have "EXT4_SNAPSHOT_START_TRANS_BLOCKS n = word_of_int (21 * sint n + 6)"
    by (simp add: start_blocks_eq)
  then show ?thesis
    using assms by (simp only: sint_in_range)
qed

lemma sint_add_in_range:
  fixes a b :: cint
  assumes "- 2147483648 \<le> sint a + sint b" and "sint a + sint b \<le> 2147483647"
  shows "sint (a + b) = sint a + sint b"
proof -
  have "a + b = word_of_int (sint a + sint b)" by simp
  then show ?thesis using assms by (simp only: sint_in_range)
qed

lemma sint_sub_in_range:
  fixes a b :: cint
  assumes "- 2147483648 \<le> sint a - sint b" and "sint a - sint b \<le> 2147483647"
  shows "sint (a - b) = sint a - sint b"
proof -
  have "a - b = word_of_int (sint a - sint b)" by simp
  then show ?thesis using assms by (simp only: sint_in_range)
qed

lemma sint_bounds: "- 2147483648 \<le> sint (a :: cint) \<and> sint a \<le> 2147483647"
  using sint_ge [of a] sint_lt [of a] by simp

text \<open>The credits extend asks for, as an integer, where nothing overflows.\<close>

lemma sint_extend_delta:
  fixes u n b :: cint
  assumes "0 \<le> sint b" and "0 \<le> sint u + sint n"
    and "21 * (sint u + sint n) + 3 \<le> 2147483647"
  shows "sint (EXT4_SNAPSHOT_TRANS_BLOCKS (u + n) - b) = 21 * (sint u + sint n) + 3 - sint b"
    and "sint (EXT4_SNAPSHOT_TRANS_BLOCKS (u + n)) = 21 * (sint u + sint n) + 3"
    and "sint (u + n) = sint u + sint n"
proof -
  show un: "sint (u + n) = sint u + sint n"
    using assms by (intro sint_add_in_range) auto
  show t: "sint (EXT4_SNAPSHOT_TRANS_BLOCKS (u + n)) = 21 * (sint u + sint n) + 3"
    using assms un by (simp add: sint_trans_blocks)
  show "sint (EXT4_SNAPSHOT_TRANS_BLOCKS (u + n) - b) = 21 * (sint u + sint n) + 3 - sint b"
    using assms t sint_bounds [of b]
    by (simp add: sint_sub_in_range)
qed

text \<open>What extend and restart return on a valid handle, one lemma for each path.\<close>

lemma extend_no_call:
  assumes "ext4_handle_valid handle" and "EXT4_SNAPSHOTS (handle_sb (handles s handle))"
    and "sint (EXT4_SNAPSHOT_TRANS_BLOCKS (h_user_credits (handles s handle) + n)
               - h_buffer_credits (handles s handle)) \<le> 0"
  shows "uu_ext4_journal_extend J s handle n =
           (0, s\<lparr>handles := (handles s)(handle := (handles s handle)
                  \<lparr>h_base_credits := h_base_credits (handles s handle) + n,
                   h_user_credits := h_user_credits (handles s handle) + n\<rparr>)\<rparr>)"
  using assms by (simp add: uu_ext4_journal_extend_def Let_def)

lemma extend_call:
  assumes "ext4_handle_valid handle" and "EXT4_SNAPSHOTS (handle_sb (handles s handle))"
    and "0 < sint (EXT4_SNAPSHOT_TRANS_BLOCKS (h_user_credits (handles s handle) + n)
               - h_buffer_credits (handles s handle))"
    and "jbd2_journal_extend J (handles s handle)
           (EXT4_SNAPSHOT_TRANS_BLOCKS (h_user_credits (handles s handle) + n)
               - h_buffer_credits (handles s handle)) = (err, h')"
  shows "uu_ext4_journal_extend J s handle n =
           (err, s\<lparr>handles := (handles s)(handle :=
                     (if err = 0 then h'\<lparr>h_base_credits := h_base_credits h' + n,
                                          h_user_credits := h_user_credits h' + n\<rparr> else h')),
                   jbd2_log := jbd2_log s @ [Jbd2_extend handle
                      (EXT4_SNAPSHOT_TRANS_BLOCKS (h_user_credits (handles s handle) + n)
                         - h_buffer_credits (handles s handle))]\<rparr>)"
  using assms by (simp add: uu_ext4_journal_extend_def Let_def call_jbd2_journal_extend_def)

lemma restart_call:
  assumes "ext4_handle_valid handle"
    and "jbd2_journal_restart J (handles s handle)
           (if EXT4_SNAPSHOTS (handle_sb (handles s handle))
            then EXT4_SNAPSHOT_START_TRANS_BLOCKS n else n) = (err, h')"
  shows "uu_ext4_journal_restart J s handle n =
           (err, s\<lparr>handles := (handles s)(handle :=
                     (if EXT4_SNAPSHOTS (handle_sb (handles s handle)) \<and> err = 0
                      then h'\<lparr>h_base_credits := n, h_user_credits := n\<rparr> else h')),
                   jbd2_log := jbd2_log s @ [Jbd2_restart handle
                      (if EXT4_SNAPSHOTS (handle_sb (handles s handle))
                       then EXT4_SNAPSHOT_START_TRANS_BLOCKS n else n)]\<rparr>)"
  using assms by (simp add: uu_ext4_journal_restart_def Let_def call_jbd2_journal_restart_def)

section \<open>The credit model\<close>

text \<open>
  Claim C1. The base constants are \<open>write_credits = 1\<close>, \<open>alloc_credits = 3\<close>,
  \<open>cow_bitmap_credits = 9\<close>, \<open>cow_block_credits = 11\<close> and \<open>snapshot_fixed_credits = 3\<close>;
  from them \<open>EXT4_COW_CREDITS\<close> is 20 and, for every natural number \<open>n\<close>,
  \<open>EXT4_SNAPSHOT_TRANS_BLOCKS(n)\<close> is \<open>21 * n + 3\<close> and
  \<open>EXT4_SNAPSHOT_START_TRANS_BLOCKS(n)\<close> is \<open>21 * n + 6\<close>. The two formulas hold on the
  natural numbers and, as identities of 32-bit arithmetic, on the \<open>int\<close> that stores \<open>n\<close>.
\<close>

theorem snapshot_credit_model:
  "(EXT4_WRITE_CREDITS :: nat) = 1 \<and> (EXT4_ALLOC_CREDITS :: nat) = 3
   \<and> (EXT4_COW_BITMAP_CREDITS :: nat) = 9 \<and> (EXT4_COW_BLOCK_CREDITS :: nat) = 11
   \<and> (EXT4_SNAPSHOT_CREDITS :: nat) = 3 \<and> (EXT4_COW_CREDITS :: nat) = 20
   \<and> EXT4_SNAPSHOT_TRANS_BLOCKS (n :: nat) = 21 * n + 3
   \<and> EXT4_SNAPSHOT_START_TRANS_BLOCKS n = 21 * n + 6
   \<and> EXT4_SNAPSHOT_TRANS_BLOCKS (word_of_nat n :: cint) = word_of_nat (21 * n + 3)
   \<and> EXT4_SNAPSHOT_START_TRANS_BLOCKS (word_of_nat n :: cint) = word_of_nat (21 * n + 6)"
  by (simp add: trans_blocks_eq start_blocks_eq cow_defs)

text \<open>
  Claim C8. \<open>EXT4_DATA_TRANS_BLOCKS\<close> is the credits of a single data operation (27 with
  extents, 8 without) plus the 6 of an extended-attribute operation, minus 2, plus the
  quota term \<open>MAXQUOTAS * EXT4_QUOTA_TRANS_BLOCKS\<close>. With quota off (not built in, or not a
  mount option) that is 12 without extents and 31 with extents.
\<close>

theorem data_trans_blocks:
  "EXT4_SINGLEDATA_TRANS_BLOCKS sb = (if INCOMPAT_EXTENTS sb then 27 else 8)
   \<and> EXT4_XATTR_TRANS_BLOCKS = 6
   \<and> EXT4_DATA_TRANS_BLOCKS k sb =
       (if INCOMPAT_EXTENTS sb then 27 else 8) + 6 - 2
         + MAXQUOTAS k * (if CONFIG_QUOTA k \<and> opt_QUOTA sb then 1 else 0)
   \<and> (\<not> (CONFIG_QUOTA k \<and> opt_QUOTA sb) \<longrightarrow>
        EXT4_DATA_TRANS_BLOCKS k sb = (if INCOMPAT_EXTENTS sb then 31 else 12))"
  by (simp add: EXT4_SINGLEDATA_TRANS_BLOCKS_def EXT4_XATTR_TRANS_BLOCKS_def
      EXT4_DATA_TRANS_BLOCKS_def EXT4_MAXQUOTAS_TRANS_BLOCKS_def EXT4_QUOTA_TRANS_BLOCKS_def)

theorem data_trans_blocks_witness:
  "\<not> (CONFIG_QUOTA kconfig_all \<and> opt_QUOTA sb_plain)
   \<and> \<not> (CONFIG_QUOTA kconfig_all \<and> opt_QUOTA sb_snapshots)
   \<and> EXT4_DATA_TRANS_BLOCKS kconfig_all sb_plain = 12
   \<and> EXT4_DATA_TRANS_BLOCKS kconfig_all sb_snapshots = 31
   \<and> EXT4_DATA_TRANS_BLOCKS kconfig_all (sb_plain\<lparr>opt_QUOTA := True\<rparr>) = 14"
proof -
  have q: "\<not> (CONFIG_QUOTA kconfig_all \<and> opt_QUOTA sb_plain)"
    "\<not> (CONFIG_QUOTA kconfig_all \<and> opt_QUOTA sb_snapshots)"
    by (simp_all add: example_defs)
  have "EXT4_DATA_TRANS_BLOCKS kconfig_all sb_plain
          = (if INCOMPAT_EXTENTS sb_plain then 31 else 12)"
    using data_trans_blocks [of sb_plain kconfig_all] q(1) by blast
  then have a: "EXT4_DATA_TRANS_BLOCKS kconfig_all sb_plain = 12"
    by (simp add: sb_plain_def)
  have "EXT4_DATA_TRANS_BLOCKS kconfig_all sb_snapshots
          = (if INCOMPAT_EXTENTS sb_snapshots then 31 else 12)"
    using data_trans_blocks [of sb_snapshots kconfig_all] q(2) by blast
  then have b: "EXT4_DATA_TRANS_BLOCKS kconfig_all sb_snapshots = 31"
    by (simp add: sb_snapshots_def)
  have "EXT4_DATA_TRANS_BLOCKS kconfig_all (sb_plain\<lparr>opt_QUOTA := True\<rparr>) =
          (if INCOMPAT_EXTENTS (sb_plain\<lparr>opt_QUOTA := True\<rparr>) then 27 else 8) + 6 - 2
            + MAXQUOTAS kconfig_all
                * (if CONFIG_QUOTA kconfig_all \<and> opt_QUOTA (sb_plain\<lparr>opt_QUOTA := True\<rparr>)
                   then 1 else 0)"
    using data_trans_blocks [of "sb_plain\<lparr>opt_QUOTA := True\<rparr>" kconfig_all] by blast
  then have c: "EXT4_DATA_TRANS_BLOCKS kconfig_all (sb_plain\<lparr>opt_QUOTA := True\<rparr>) = 14"
    by (simp add: sb_plain_def kconfig_all_def)
  show ?thesis
    using q a b c by blast
qed

section \<open>Handle validity\<close>

text \<open>
  Claim C10. The threshold between invalid and valid handles is
  \<open>EXT4_NOJOURNAL_MAX_REF_COUNT = 4096\<close>: \<open>ext4_handle_valid\<close> is false exactly for the
  handles whose numeric identity is strictly below 4096, the null handle among them.
\<close>

theorem handle_valid_threshold:
  "(ext4_handle_valid handle = False) = (handle < 4096)
   \<and> EXT4_NOJOURNAL_MAX_REF_COUNT = 4096
   \<and> ext4_handle_valid 0 = False
   \<and> ext4_handle_valid 4095 = False
   \<and> ext4_handle_valid 4096 = True"
  by (simp add: valid_defs)

text \<open>
  Claim C7. On a handle whose numeric identity is below the threshold every credit
  operation is a no-op that reports success: \<open>ext4_handle_has_enough_credits\<close> is true for
  every \<open>needed\<close>, extend and restart return 0 and leave the state, with its log of calls
  into the journal layer, as it was, \<open>ext4_handle_sync\<close> changes nothing and
  \<open>ext4_handle_is_aborted\<close> is false. This holds in every build configuration.
\<close>

theorem invalid_handle_noop:
  assumes "handle < 4096"
  shows "ext4_handle_valid handle = False
    \<and> ext4_handle_has_enough_credits k s handle needed = True
    \<and> ext4_journal_extend k J s handle nblocks = (0, s)
    \<and> ext4_journal_restart k J s handle nblocks = (0, s)
    \<and> uu_ext4_journal_extend J s handle nblocks = (0, s)
    \<and> uu_ext4_journal_restart J s handle nblocks = (0, s)
    \<and> ext4_handle_sync s handle = s
    \<and> ext4_handle_is_aborted J s handle = False"
  using assms
  by (simp add: valid_defs ext4_handle_has_enough_credits_def ext4_journal_extend_def
      ext4_journal_restart_def uu_ext4_journal_extend_def uu_ext4_journal_restart_def
      ext4_handle_sync_def ext4_handle_is_aborted_def)

theorem invalid_handle_noop_witness:
  "(4095 :: addr) < 4096
   \<and> ext4_handle_has_enough_credits kconfig_all
        (state_of (handle_with sb_snapshots 0 0 True)) 4095 1000
   \<and> ext4_journal_extend kconfig_all jbd2_refusing
        (state_of (handle_with sb_snapshots 0 0 True)) 4095 7
       = (0, state_of (handle_with sb_snapshots 0 0 True))
   \<and> ext4_journal_restart kconfig_all jbd2_refusing
        (state_of (handle_with sb_snapshots 0 0 True)) 4095 7
       = (0, state_of (handle_with sb_snapshots 0 0 True))
   \<and> ext4_handle_sync (state_of (handle_with sb_snapshots 0 0 True)) 4095
       = state_of (handle_with sb_snapshots 0 0 True)
   \<and> \<not> ext4_handle_is_aborted jbd2_refusing
          (state_of (handle_with sb_snapshots 0 0 True)) 4095"
  using invalid_handle_noop
    [of 4095 kconfig_all "state_of (handle_with sb_snapshots 0 0 True)" 1000 jbd2_refusing 7]
  by simp

section \<open>The credit check\<close>

text \<open>
  Claim C2. On a valid handle, when snapshots are enabled,
  \<open>ext4_handle_has_enough_credits\<close> is true exactly when the buffer credits are at least
  \<open>EXT4_SNAPSHOT_TRANS_BLOCKS(needed) = 21 * needed + 3\<close> and the user credits are at least
  \<open>needed\<close>; when snapshots are disabled it is true exactly when the buffer credits are at
  least \<open>needed\<close>, and the user credits are not looked at. The comparisons are those of
  \<open>int\<close>, and \<open>21 * needed + 3\<close> is computed in \<open>int\<close>; it is the integer of that
  value wherever that integer fits an \<open>int\<close>.
\<close>

theorem has_enough_credits_iff:
  assumes "ext4_handle_valid handle"
  shows "ext4_handle_has_enough_credits k s handle n =
           (if CONFIG_EXT4_FS_SNAPSHOT_JOURNAL_CREDITS k
               \<and> EXT4_SNAPSHOTS (handle_sb (handles s handle))
            then sint (EXT4_SNAPSHOT_TRANS_BLOCKS n) \<le> sint (h_buffer_credits (handles s handle))
                 \<and> sint n \<le> sint (h_user_credits (handles s handle))
            else sint n \<le> sint (h_buffer_credits (handles s handle)))
         \<and> EXT4_SNAPSHOT_TRANS_BLOCKS n = 21 * n + 3
         \<and> (- 2147483648 \<le> 21 * sint n + 3 \<and> 21 * sint n + 3 \<le> 2147483647
              \<longrightarrow> sint (EXT4_SNAPSHOT_TRANS_BLOCKS n) = 21 * sint n + 3)"
  using assms
  by (auto simp add: ext4_handle_has_enough_credits_def EXT4_SNAPSHOT_HAS_TRANS_BLOCKS_def
      trans_blocks_eq sint_trans_blocks [unfolded trans_blocks_eq])

theorem has_enough_credits_iff_witness:
  "ext4_handle_valid 4096
   \<and> ext4_handle_has_enough_credits kconfig_all
        (state_of (handle_with sb_snapshots 111 5 False)) 4096 5
   \<and> \<not> ext4_handle_has_enough_credits kconfig_all
          (state_of (handle_with sb_snapshots 111 5 False)) 4096 6
   \<and> ext4_handle_has_enough_credits kconfig_all
        (state_of (handle_with sb_plain 111 5 False)) 4096 111
   \<and> \<not> ext4_handle_has_enough_credits kconfig_all
          (state_of (handle_with sb_plain 111 5 False)) 4096 112
   \<and> ext4_handle_has_enough_credits kconfig_none
        (state_of (handle_with sb_snapshots 111 5 False)) 4096 111
   \<and> sint (EXT4_SNAPSHOT_TRANS_BLOCKS (5 :: cint)) = 108"
  using
    has_enough_credits_iff
      [of 4096 kconfig_none "state_of (handle_with sb_snapshots 111 5 False)" 111]
    has_enough_credits_iff
      [of 4096 kconfig_all "state_of (handle_with sb_snapshots 111 5 False)" 5]
    has_enough_credits_iff
      [of 4096 kconfig_all "state_of (handle_with sb_snapshots 111 5 False)" 6]
    has_enough_credits_iff
      [of 4096 kconfig_all "state_of (handle_with sb_plain 111 5 False)" 111]
    has_enough_credits_iff
      [of 4096 kconfig_all "state_of (handle_with sb_plain 111 5 False)" 112]
  by (simp add: valid_defs example_defs handle_sb_def)

section \<open>Data journaling mode under snapshots\<close>

text \<open>
  Claim C9. In a build with snapshots, on a file system where snapshots are enabled, a
  regular file with a journal has ordered data whatever the mount options and the inode
  flag say: \<open>ext4_should_journal_data\<close> is false, \<open>ext4_should_order_data\<close> is true and
  \<open>ext4_should_writeback_data\<close> is false.
\<close>

theorem snapshots_force_ordered_data:
  assumes "CONFIG_EXT4_FS_SNAPSHOT k" and "EXT4_SNAPSHOTS (i_sb inode)"
    and "EXT4_JOURNAL inode \<noteq> 0" and "S_ISREG inode"
  shows "ext4_should_journal_data k inode = False
    \<and> ext4_should_order_data k inode = True
    \<and> ext4_should_writeback_data k inode = False"
  using assms
  by (simp add: ext4_should_journal_data_def ext4_should_order_data_def
      ext4_should_writeback_data_def)

theorem snapshots_force_ordered_data_witness:
  "CONFIG_EXT4_FS_SNAPSHOT kconfig_all \<and> EXT4_SNAPSHOTS (i_sb inode_regular)
   \<and> EXT4_JOURNAL inode_regular \<noteq> 0 \<and> S_ISREG inode_regular
   \<and> opt_DATA_FLAGS (i_sb inode_regular) = EXT4_MOUNT_JOURNAL_DATA
   \<and> INODE_JOURNAL_DATA inode_regular
   \<and> \<not> ext4_should_journal_data kconfig_all inode_regular
   \<and> ext4_should_order_data kconfig_all inode_regular
   \<and> \<not> ext4_should_writeback_data kconfig_all inode_regular
   \<and> \<not> ext4_should_journal_data kconfig_all
          (inode_regular\<lparr>i_sb := sb_snapshots\<lparr>opt_DATA_FLAGS := EXT4_MOUNT_WRITEBACK_DATA\<rparr>\<rparr>)
   \<and> ext4_should_order_data kconfig_all
        (inode_regular\<lparr>i_sb := sb_snapshots\<lparr>opt_DATA_FLAGS := EXT4_MOUNT_WRITEBACK_DATA\<rparr>\<rparr>)
   \<and> \<not> ext4_should_writeback_data kconfig_all
          (inode_regular\<lparr>i_sb := sb_snapshots\<lparr>opt_DATA_FLAGS := EXT4_MOUNT_WRITEBACK_DATA\<rparr>\<rparr>)"
  using snapshots_force_ordered_data [of kconfig_all inode_regular]
    snapshots_force_ordered_data
      [of kconfig_all
        "inode_regular\<lparr>i_sb := sb_snapshots\<lparr>opt_DATA_FLAGS := EXT4_MOUNT_WRITEBACK_DATA\<rparr>\<rparr>"]
  by (simp add: example_defs EXT4_JOURNAL_def)

section \<open>Extending a transaction\<close>

text \<open>
  Claim C3. On a valid handle of a file system with snapshots, extend computes
  \<open>delta = EXT4_SNAPSHOT_TRANS_BLOCKS(h_user_credits + nblocks) - h_buffer_credits\<close>. If
  \<open>delta \<le> 0\<close> it returns 0 without a call into the journal layer; if \<open>delta > 0\<close> it asks
  the journal layer to extend by exactly \<open>delta\<close> and returns its error code. On success
  the user and base credits are those the journal layer left plus \<open>nblocks\<close> each, so with
  a journal layer that adds the credits asked for and leaves the two counts alone they
  grow by exactly \<open>nblocks\<close>. With 5 user credits and 111 buffer credits, as after
  \<open>start(5)\<close>, extending by 3 asks for 60. Where nothing overflows, \<open>delta\<close> is the
  integer \<open>21 * (user + nblocks) + 3 - buffer\<close>.
\<close>

theorem extend_with_snapshots:
  assumes valid: "ext4_handle_valid handle"
    and snap: "EXT4_SNAPSHOTS (handle_sb (handles s handle))"
    and h: "h = handles s handle"
    and delta: "delta = EXT4_SNAPSHOT_TRANS_BLOCKS (h_user_credits h + n) - h_buffer_credits h"
    and r: "r = uu_ext4_journal_extend J s handle n"
    and j: "j = jbd2_journal_extend J h delta"
  shows
    "(sint delta \<le> 0 \<longrightarrow>
        fst r = 0 \<and> jbd2_log (snd r) = jbd2_log s
        \<and> handles (snd r) handle =
            h\<lparr>h_base_credits := h_base_credits h + n, h_user_credits := h_user_credits h + n\<rparr>)
     \<and> (0 < sint delta \<longrightarrow>
        fst r = fst j \<and> jbd2_log (snd r) = jbd2_log s @ [Jbd2_extend handle delta]
        \<and> (fst j = 0 \<longrightarrow> handles (snd r) handle =
              (snd j)\<lparr>h_base_credits := h_base_credits (snd j) + n,
                      h_user_credits := h_user_credits (snd j) + n\<rparr>))
     \<and> (fst r = 0 \<and> jbd2_extend_grants J h delta \<longrightarrow>
          h_user_credits (handles (snd r) handle) = h_user_credits h + n
          \<and> h_base_credits (handles (snd r) handle) = h_base_credits h + n
          \<and> h_buffer_credits (handles (snd r) handle) =
              (if 0 < sint delta then h_buffer_credits h + delta else h_buffer_credits h))
     \<and> (h_user_credits h = 5 \<and> h_buffer_credits h = 111 \<and> n = 3 \<longrightarrow>
          delta = 60 \<and> 0 < sint delta)
     \<and> (0 \<le> sint (h_buffer_credits h) \<and> 0 \<le> sint (h_user_credits h) + sint n
          \<and> 21 * (sint (h_user_credits h) + sint n) + 3 \<le> 2147483647 \<longrightarrow>
          sint delta = 21 * (sint (h_user_credits h) + sint n) + 3 - sint (h_buffer_credits h))"
proof (cases "0 < sint delta")
  case True
  obtain err h' where jj: "jbd2_journal_extend J h delta = (err, h')"
    by (cases "jbd2_journal_extend J h delta")
  have rr: "r = (err, s\<lparr>handles := (handles s)(handle :=
                     (if err = 0 then h'\<lparr>h_base_credits := h_base_credits h' + n,
                                          h_user_credits := h_user_credits h' + n\<rparr> else h')),
                   jbd2_log := jbd2_log s @ [Jbd2_extend handle delta]\<rparr>)"
    using extend_call [OF valid snap, of n J err h'] True jj
    unfolding r h delta by simp
  show ?thesis
    using True jj rr sint_extend_delta(1) [of "h_buffer_credits h" "h_user_credits h" n]
    by (auto simp add: j jbd2_extend_grants_def delta trans_blocks_eq)
next
  case False
  then have le: "sint delta \<le> 0" by simp
  have rr: "r = (0, s\<lparr>handles := (handles s)(handle := h
                  \<lparr>h_base_credits := h_base_credits h + n,
                   h_user_credits := h_user_credits h + n\<rparr>)\<rparr>)"
    using extend_no_call [OF valid snap, of n J] le
    unfolding r h delta by simp
  show ?thesis
    using False le rr sint_extend_delta(1) [of "h_buffer_credits h" "h_user_credits h" n]
    by (auto simp add: delta trans_blocks_eq)
qed

theorem extend_with_snapshots_witness:
  "ext4_handle_valid 4096
   \<and> EXT4_SNAPSHOTS (handle_sb (journal_start_handle (transaction_on sb_snapshots) 5))
   \<and> h_buffer_credits (journal_start_handle (transaction_on sb_snapshots) 5) = 111
   \<and> h_user_credits (journal_start_handle (transaction_on sb_snapshots) 5) = 5
   \<and> jbd2_extend_grants jbd2_granting (journal_start_handle (transaction_on sb_snapshots) 5) 60
   \<and> fst (uu_ext4_journal_extend jbd2_granting
            (state_of (journal_start_handle (transaction_on sb_snapshots) 5)) 4096 3) = 0
   \<and> jbd2_log (snd (uu_ext4_journal_extend jbd2_granting
            (state_of (journal_start_handle (transaction_on sb_snapshots) 5)) 4096 3))
       = [Jbd2_extend 4096 60]
   \<and> h_user_credits (handles (snd (uu_ext4_journal_extend jbd2_granting
            (state_of (journal_start_handle (transaction_on sb_snapshots) 5)) 4096 3)) 4096) = 8
   \<and> h_base_credits (handles (snd (uu_ext4_journal_extend jbd2_granting
            (state_of (journal_start_handle (transaction_on sb_snapshots) 5)) 4096 3)) 4096) = 8
   \<and> h_buffer_credits (handles (snd (uu_ext4_journal_extend jbd2_granting
            (state_of (journal_start_handle (transaction_on sb_snapshots) 5)) 4096 3)) 4096) = 171
   \<and> sint (EXT4_SNAPSHOT_TRANS_BLOCKS (2 + 3) - 111 :: cint) \<le> 0
   \<and> fst (uu_ext4_journal_extend jbd2_refusing
            (state_of (handle_with sb_snapshots 111 2 False)) 4096 3) = 0
   \<and> jbd2_log (snd (uu_ext4_journal_extend jbd2_refusing
            (state_of (handle_with sb_snapshots 111 2 False)) 4096 3)) = []
   \<and> h_user_credits (handles (snd (uu_ext4_journal_extend jbd2_refusing
            (state_of (handle_with sb_snapshots 111 2 False)) 4096 3)) 4096) = 5"
proof -
  let ?h = "journal_start_handle (transaction_on sb_snapshots) 5"
  let ?r = "uu_ext4_journal_extend jbd2_granting (state_of ?h) 4096 3"
  have v: "ext4_handle_valid 4096" by (simp add: valid_defs)
  have hs: "handles (state_of ?h) 4096 = ?h" by (simp add: state_of_def)
  have sn: "EXT4_SNAPSHOTS (handle_sb (handles (state_of ?h) 4096))"
    by (simp add: state_of_def journal_start_handle_def handle_sb_def example_defs)
  have b: "h_buffer_credits ?h = 111" and u: "h_user_credits ?h = 5"
    and ba: "h_base_credits ?h = 5"
    by (simp_all add: journal_start_handle_def journal_start_credits_def start_blocks_eq
        example_defs)
  have d: "EXT4_SNAPSHOT_TRANS_BLOCKS (h_user_credits ?h + 3) - h_buffer_credits ?h = (60 :: cint)"
    by (simp add: b u trans_blocks_eq)
  have g: "jbd2_extend_grants jbd2_granting ?h 60"
    by (simp add: jbd2_extend_grants_def jbd2_granting_def)
  note t = extend_with_snapshots [OF v sn hs [symmetric] d [symmetric] refl refl,
      where J = jbd2_granting]
  have pos: "0 < sint (60 :: cint)" by simp
  from t pos have r0: "fst ?r = fst (jbd2_journal_extend jbd2_granting ?h 60)"
    and lg: "jbd2_log (snd ?r) = jbd2_log (state_of ?h) @ [Jbd2_extend 4096 60]"
    by blast+
  from r0 have r0': "fst ?r = 0" by (simp add: jbd2_granting_def)
  from t [THEN conjunct2, THEN conjunct2, THEN conjunct1] r0' g have
    "h_user_credits (handles (snd ?r) 4096) = h_user_credits ?h + 3
     \<and> h_base_credits (handles (snd ?r) 4096) = h_base_credits ?h + 3
     \<and> h_buffer_credits (handles (snd ?r) 4096) =
         (if 0 < sint (60 :: cint) then h_buffer_credits ?h + 60 else h_buffer_credits ?h)"
    by blast
  then have vals: "h_user_credits (handles (snd ?r) 4096) = 8"
    "h_base_credits (handles (snd ?r) 4096) = 8"
    "h_buffer_credits (handles (snd ?r) 4096) = 171"
    by (simp_all add: b u ba)
  let ?h2 = "handle_with sb_snapshots 111 2 False"
  let ?r2 = "uu_ext4_journal_extend jbd2_refusing (state_of ?h2) 4096 3"
  have hs2: "handles (state_of ?h2) 4096 = ?h2" by (simp add: state_of_def)
  have sn2: "EXT4_SNAPSHOTS (handle_sb (handles (state_of ?h2) 4096))"
    by (simp add: handle_sb_def example_defs)
  have d2: "EXT4_SNAPSHOT_TRANS_BLOCKS (h_user_credits ?h2 + 3) - h_buffer_credits ?h2
              = (EXT4_SNAPSHOT_TRANS_BLOCKS (2 + 3) - 111 :: cint)"
    by (simp add: handle_with_def)
  have neg: "sint (EXT4_SNAPSHOT_TRANS_BLOCKS (2 + 3) - 111 :: cint) \<le> 0"
    by (simp add: trans_blocks_eq)
  note t2 = extend_with_snapshots [OF v sn2 hs2 [symmetric] d2 [symmetric] refl refl,
      where J = jbd2_refusing]
  from t2 neg have "fst ?r2 = 0" "jbd2_log (snd ?r2) = jbd2_log (state_of ?h2)"
    "handles (snd ?r2) 4096 =
       ?h2\<lparr>h_base_credits := h_base_credits ?h2 + 3, h_user_credits := h_user_credits ?h2 + 3\<rparr>"
    by blast+
  then have vals2: "fst ?r2 = 0" "jbd2_log (snd ?r2) = []"
    "h_user_credits (handles (snd ?r2) 4096) = 5"
    by (simp_all add: state_of_def handle_with_def)
  show ?thesis
    using v sn [unfolded hs] b u g r0' lg vals neg vals2 by (simp add: state_of_def)
qed

section \<open>Restarting a transaction\<close>

text \<open>
  Claim C4, as amended. On a valid handle, restart asks the journal layer for
  \<open>EXT4_SNAPSHOT_START_TRANS_BLOCKS(nblocks) = 21 * nblocks + 6\<close> credits when snapshots are
  enabled, which is what start requests for the same count, and for exactly \<open>nblocks\<close>
  when they are disabled, and returns the journal layer's error code. On success with
  snapshots enabled it sets the user and base credits to \<open>nblocks\<close>, whatever they were.
  With snapshots disabled, or on failure, it writes neither count: the handle is as the
  journal layer left it.
\<close>

theorem restart_requests_and_resets:
  assumes valid: "ext4_handle_valid handle"
    and h: "h = handles s handle"
    and credits: "credits = (if EXT4_SNAPSHOTS (handle_sb h)
                             then EXT4_SNAPSHOT_START_TRANS_BLOCKS n else n)"
    and r: "r = uu_ext4_journal_restart J s handle n"
    and j: "j = jbd2_journal_restart J h credits"
  shows
    "jbd2_log (snd r) = jbd2_log s @ [Jbd2_restart handle credits]
     \<and> credits = (if EXT4_SNAPSHOTS (handle_sb h) then 21 * n + 6 else n)
     \<and> credits = journal_start_credits (handle_sb h) n
     \<and> sint (journal_start_credits (handle_sb h) n) \<le> sint credits
     \<and> fst r = fst j
     \<and> (EXT4_SNAPSHOTS (handle_sb h) \<and> fst r = 0 \<longrightarrow>
          handles (snd r) handle = (snd j)\<lparr>h_base_credits := n, h_user_credits := n\<rparr>
          \<and> h_user_credits (handles (snd r) handle) = n
          \<and> h_base_credits (handles (snd r) handle) = n)
     \<and> (\<not> EXT4_SNAPSHOTS (handle_sb h) \<or> fst r \<noteq> 0 \<longrightarrow>
          handles (snd r) handle = snd j)
     \<and> (EXT4_SNAPSHOTS (handle_sb h) \<and> 0 \<le> sint n \<and> 21 * sint n + 6 \<le> 2147483647 \<longrightarrow>
          sint credits = 21 * sint n + 6)"
proof -
  obtain err h' where jj: "jbd2_journal_restart J h credits = (err, h')"
    by (cases "jbd2_journal_restart J h credits")
  have rr: "r = (err, s\<lparr>handles := (handles s)(handle :=
                     (if EXT4_SNAPSHOTS (handle_sb h) \<and> err = 0
                      then h'\<lparr>h_base_credits := n, h_user_credits := n\<rparr> else h')),
                   jbd2_log := jbd2_log s @ [Jbd2_restart handle credits]\<rparr>)"
    using restart_call [OF valid, of J s n err h'] jj
    unfolding r h credits by simp
  show ?thesis
    using jj rr sint_start_blocks [of n]
    by (auto simp add: j credits journal_start_credits_def start_blocks_eq)
qed

theorem restart_snapshots_off_counterexample:
  "ext4_handle_valid 4096
   \<and> \<not> EXT4_SNAPSHOTS (handle_sb (handles (state_of (handle_with sb_plain 7 0 False)) 4096))
   \<and> fst (uu_ext4_journal_restart jbd2_granting
            (state_of (handle_with sb_plain 7 0 False)) 4096 2) = 0
   \<and> jbd2_log (snd (uu_ext4_journal_restart jbd2_granting
            (state_of (handle_with sb_plain 7 0 False)) 4096 2)) = [Jbd2_restart 4096 2]
   \<and> h_user_credits (handles (snd (uu_ext4_journal_restart jbd2_granting
            (state_of (handle_with sb_plain 7 0 False)) 4096 2)) 4096) = 0
   \<and> h_base_credits (handles (snd (uu_ext4_journal_restart jbd2_granting
            (state_of (handle_with sb_plain 7 0 False)) 4096 2)) 4096) = 0
   \<and> h_user_credits (handles (snd (uu_ext4_journal_restart jbd2_granting
            (state_of (handle_with sb_plain 7 0 False)) 4096 2)) 4096) \<noteq> 2"
  by (simp add: uu_ext4_journal_restart_def call_jbd2_journal_restart_def valid_defs
      handle_sb_def example_defs Let_def)

theorem restart_requests_and_resets_witness:
  "ext4_handle_valid 4096
   \<and> EXT4_SNAPSHOTS (handle_sb (handle_with sb_snapshots 4 9 False))
   \<and> jbd2_log (snd (uu_ext4_journal_restart jbd2_granting
            (state_of (handle_with sb_snapshots 4 9 False)) 4096 2)) = [Jbd2_restart 4096 48]
   \<and> fst (uu_ext4_journal_restart jbd2_granting
            (state_of (handle_with sb_snapshots 4 9 False)) 4096 2) = 0
   \<and> h_user_credits (handles (snd (uu_ext4_journal_restart jbd2_granting
            (state_of (handle_with sb_snapshots 4 9 False)) 4096 2)) 4096) = 2
   \<and> h_base_credits (handles (snd (uu_ext4_journal_restart jbd2_granting
            (state_of (handle_with sb_snapshots 4 9 False)) 4096 2)) 4096) = 2
   \<and> \<not> EXT4_SNAPSHOTS (handle_sb (handle_with sb_plain 7 0 False))
   \<and> jbd2_log (snd (uu_ext4_journal_restart jbd2_granting
            (state_of (handle_with sb_plain 7 0 False)) 4096 2)) = [Jbd2_restart 4096 2]
   \<and> handles (snd (uu_ext4_journal_restart jbd2_granting
            (state_of (handle_with sb_plain 7 0 False)) 4096 2)) 4096
       = handle_with sb_plain 2 0 False
   \<and> fst (uu_ext4_journal_restart jbd2_refusing
            (state_of (handle_with sb_snapshots 4 9 False)) 4096 2) = - 5
   \<and> h_user_credits (handles (snd (uu_ext4_journal_restart jbd2_refusing
            (state_of (handle_with sb_snapshots 4 9 False)) 4096 2)) 4096) = 9"
proof -
  have v: "ext4_handle_valid 4096" by (simp add: valid_defs)
  let ?h = "handle_with sb_snapshots 4 9 False"
  let ?r = "uu_ext4_journal_restart jbd2_granting (state_of ?h) 4096 2"
  have hs: "?h = handles (state_of ?h) 4096" by (simp add: state_of_def)
  have sn: "EXT4_SNAPSHOTS (handle_sb ?h)" by (simp add: handle_sb_def example_defs)
  have c: "(48 :: cint) = (if EXT4_SNAPSHOTS (handle_sb ?h)
                           then EXT4_SNAPSHOT_START_TRANS_BLOCKS 2 else 2)"
    by (simp add: sn start_blocks_eq)
  note t = restart_requests_and_resets [OF v hs c refl refl, where J = jbd2_granting]
  have a1: "jbd2_log (snd ?r) = [Jbd2_restart 4096 48]"
    using t [THEN conjunct1] by (simp add: state_of_def)
  have a2: "fst ?r = 0"
    using t by (simp add: jbd2_granting_def)
  have a3: "h_user_credits (handles (snd ?r) 4096) = 2 \<and> h_base_credits (handles (snd ?r) 4096) = 2"
    using t sn a2 by blast
  let ?r' = "uu_ext4_journal_restart jbd2_refusing (state_of ?h) 4096 2"
  note t' = restart_requests_and_resets [OF v hs c refl refl, where J = jbd2_refusing]
  have b1: "fst ?r' = - 5"
    using t' by (simp add: jbd2_refusing_def)
  then have "fst ?r' \<noteq> 0" by simp
  with t' have "handles (snd ?r') 4096 = snd (jbd2_journal_restart jbd2_refusing ?h 48)"
    by blast
  then have b2: "h_user_credits (handles (snd ?r') 4096) = 9"
    by (simp add: jbd2_refusing_def handle_with_def)
  let ?p = "handle_with sb_plain 7 0 False"
  let ?q = "uu_ext4_journal_restart jbd2_granting (state_of ?p) 4096 2"
  have ps: "?p = handles (state_of ?p) 4096" by (simp add: state_of_def)
  have np: "\<not> EXT4_SNAPSHOTS (handle_sb ?p)" by (simp add: handle_sb_def example_defs)
  have cp: "(2 :: cint) = (if EXT4_SNAPSHOTS (handle_sb ?p)
                           then EXT4_SNAPSHOT_START_TRANS_BLOCKS 2 else 2)"
    by (simp add: np)
  note u = restart_requests_and_resets [OF v ps cp refl refl, where J = jbd2_granting]
  have c1: "jbd2_log (snd ?q) = [Jbd2_restart 4096 2]"
    using u [THEN conjunct1] by (simp add: state_of_def)
  from u np have "handles (snd ?q) 4096 = snd (jbd2_journal_restart jbd2_granting ?p 2)"
    by blast
  then have c2: "handles (snd ?q) 4096 = handle_with sb_plain 2 0 False"
    by (simp add: jbd2_granting_def handle_with_def)
  show ?thesis
    using v sn a1 a2 a3 np c1 c2 b1 b2 by blast
qed

section \<open>Aborted handles\<close>

text \<open>
  Claim C5, as amended. On a valid handle the credit check does not look at the abort
  state: \<open>ext4_handle_has_enough_credits\<close> gives the same answer whatever the handle's
  abort flag is, so an aborted handle that still holds the credits passes it.
  \<open>ext4_handle_is_aborted\<close> reports the journal layer's \<open>is_handle_aborted\<close>. Extend and
  restart do not test the abort state either: restart returns the journal layer's error
  code, and extend returns it when it needs more credits and returns success, without a
  call, when it needs none.
\<close>

theorem credit_check_ignores_abort:
  assumes valid: "ext4_handle_valid handle"
    and h: "h = handles s handle"
    and delta: "delta = (if EXT4_SNAPSHOTS (handle_sb h)
                         then EXT4_SNAPSHOT_TRANS_BLOCKS (h_user_credits h + n) - h_buffer_credits h
                         else n)"
    and credits: "credits = (if EXT4_SNAPSHOTS (handle_sb h)
                             then EXT4_SNAPSHOT_START_TRANS_BLOCKS n else n)"
  shows
    "ext4_handle_has_enough_credits k
        (s\<lparr>handles := (handles s)(handle := h\<lparr>h_aborted := a\<rparr>)\<rparr>) handle needed
       = ext4_handle_has_enough_credits k s handle needed
     \<and> ext4_handle_is_aborted J s handle = is_handle_aborted J h
     \<and> fst (uu_ext4_journal_restart J s handle n) = fst (jbd2_journal_restart J h credits)
     \<and> fst (uu_ext4_journal_extend J s handle n)
         = (if 0 < sint delta then fst (jbd2_journal_extend J h delta) else 0)
     \<and> jbd2_log (snd (uu_ext4_journal_extend J s handle n))
         = (if 0 < sint delta then jbd2_log s @ [Jbd2_extend handle delta] else jbd2_log s)"
proof -
  have a: "ext4_handle_has_enough_credits k
        (s\<lparr>handles := (handles s)(handle := h\<lparr>h_aborted := a\<rparr>)\<rparr>) handle needed
       = ext4_handle_has_enough_credits k s handle needed"
    by (simp add: ext4_handle_has_enough_credits_def EXT4_SNAPSHOT_HAS_TRANS_BLOCKS_def
        handle_sb_def h)
  have b: "ext4_handle_is_aborted J s handle = is_handle_aborted J h"
    using valid by (simp add: ext4_handle_is_aborted_def h)
  have c: "fst (uu_ext4_journal_restart J s handle n) = fst (jbd2_journal_restart J h credits)"
    using valid
    by (simp add: uu_ext4_journal_restart_def call_jbd2_journal_restart_def Let_def h credits
        split: prod.splits)
  have d: "fst (uu_ext4_journal_extend J s handle n)
         = (if 0 < sint delta then fst (jbd2_journal_extend J h delta) else 0)"
    using valid
    by (simp add: uu_ext4_journal_extend_def call_jbd2_journal_extend_def Let_def h delta
        split: prod.splits)
  have e: "jbd2_log (snd (uu_ext4_journal_extend J s handle n))
         = (if 0 < sint delta then jbd2_log s @ [Jbd2_extend handle delta] else jbd2_log s)"
    using valid
    by (auto simp add: uu_ext4_journal_extend_def call_jbd2_journal_extend_def Let_def h delta
        split: prod.splits)
  show ?thesis using a b c d e by blast
qed

theorem aborted_handle_counterexample:
  "ext4_handle_valid 4096
   \<and> ext4_handle_is_aborted jbd2_refusing (state_of (handle_with sb_snapshots 111 5 True)) 4096
   \<and> ext4_handle_has_enough_credits kconfig_all
        (state_of (handle_with sb_snapshots 111 5 True)) 4096 1
   \<and> fst (uu_ext4_journal_extend jbd2_refusing
            (state_of (handle_with sb_snapshots 111 5 True)) 4096 0) = 0
   \<and> fst (uu_ext4_journal_restart jbd2_refusing
            (state_of (handle_with sb_snapshots 111 5 False)) 4096 2) = - 5
   \<and> ext4_handle_is_aborted jbd2_refusing
        (snd (uu_ext4_journal_restart jbd2_refusing
               (state_of (handle_with sb_snapshots 111 5 False)) 4096 2)) 4096
   \<and> ext4_handle_has_enough_credits kconfig_all
        (snd (uu_ext4_journal_restart jbd2_refusing
               (state_of (handle_with sb_snapshots 111 5 False)) 4096 2)) 4096 1"
  by (simp add: valid_defs ext4_handle_is_aborted_def ext4_handle_has_enough_credits_def
      EXT4_SNAPSHOT_HAS_TRANS_BLOCKS_def uu_ext4_journal_extend_def uu_ext4_journal_restart_def
      call_jbd2_journal_restart_def handle_sb_def example_defs trans_blocks_eq start_blocks_eq
      Let_def)

theorem credit_check_ignores_abort_witness:
  "ext4_handle_valid 4096
   \<and> ext4_handle_has_enough_credits kconfig_all
        (state_of (handle_with sb_snapshots 111 5 False)) 4096 1
   \<and> ext4_handle_has_enough_credits kconfig_all
        ((state_of (handle_with sb_snapshots 111 5 False))
           \<lparr>handles := (handles (state_of (handle_with sb_snapshots 111 5 False)))
              (4096 := (handle_with sb_snapshots 111 5 False)\<lparr>h_aborted := True\<rparr>)\<rparr>) 4096 1
   \<and> \<not> ext4_handle_is_aborted jbd2_refusing
          (state_of (handle_with sb_snapshots 111 5 False)) 4096
   \<and> fst (uu_ext4_journal_restart jbd2_refusing
            (state_of (handle_with sb_snapshots 111 5 False)) 4096 2) = - 5
   \<and> fst (uu_ext4_journal_extend jbd2_refusing
            (state_of (handle_with sb_snapshots 111 5 False)) 4096 3) = - 5
   \<and> fst (uu_ext4_journal_extend jbd2_refusing
            (state_of (handle_with sb_snapshots 111 5 False)) 4096 0) = 0
   \<and> jbd2_log (snd (uu_ext4_journal_extend jbd2_refusing
            (state_of (handle_with sb_snapshots 111 5 False)) 4096 0)) = []"
proof -
  have v: "ext4_handle_valid 4096" by (simp add: valid_defs)
  let ?h = "handle_with sb_snapshots 111 5 False"
  have hs: "?h = handles (state_of ?h) 4096" by (simp add: state_of_def)
  have e: "ext4_handle_has_enough_credits kconfig_all (state_of ?h) 4096 1"
    by (simp add: valid_defs ext4_handle_has_enough_credits_def
        EXT4_SNAPSHOT_HAS_TRANS_BLOCKS_def handle_sb_def example_defs trans_blocks_eq)
  note t3 = credit_check_ignores_abort [OF v hs refl refl, where n = 3 and J = jbd2_refusing
      and k = kconfig_all and needed = 1 and a = True]
  note t2 = credit_check_ignores_abort [OF v hs refl refl, where n = 2 and J = jbd2_refusing
      and k = kconfig_all and needed = 1 and a = True]
  note t0 = credit_check_ignores_abort [OF v hs refl refl, where n = 0 and J = jbd2_refusing
      and k = kconfig_all and needed = 1 and a = True]
  have a1: "ext4_handle_has_enough_credits kconfig_all
        ((state_of ?h)\<lparr>handles := (handles (state_of ?h))(4096 := ?h\<lparr>h_aborted := True\<rparr>)\<rparr>) 4096 1"
    using t3 [THEN conjunct1] e by simp
  have a2: "\<not> ext4_handle_is_aborted jbd2_refusing (state_of ?h) 4096"
    using t3 [THEN conjunct2, THEN conjunct1] by (simp add: jbd2_refusing_def handle_with_def)
  have a3: "fst (uu_ext4_journal_restart jbd2_refusing (state_of ?h) 4096 2) = - 5"
    using t2 [THEN conjunct2, THEN conjunct2, THEN conjunct1] by (simp add: jbd2_refusing_def)
  have a4: "fst (uu_ext4_journal_extend jbd2_refusing (state_of ?h) 4096 3) = - 5"
    using t3 [THEN conjunct2, THEN conjunct2, THEN conjunct2, THEN conjunct1]
    by (simp add: jbd2_refusing_def handle_sb_def example_defs trans_blocks_eq)
  have a5: "fst (uu_ext4_journal_extend jbd2_refusing (state_of ?h) 4096 0) = 0"
    using t0 [THEN conjunct2, THEN conjunct2, THEN conjunct2, THEN conjunct1]
    by (simp add: jbd2_refusing_def handle_sb_def example_defs trans_blocks_eq)
  have a6: "jbd2_log (snd (uu_ext4_journal_extend jbd2_refusing (state_of ?h) 4096 0)) = []"
    using t0 [THEN conjunct2, THEN conjunct2, THEN conjunct2, THEN conjunct2]
    by (simp add: handle_sb_def example_defs trans_blocks_eq)
  show ?thesis using v e a1 a2 a3 a4 a5 a6 by blast
qed

section \<open>The credit invariant\<close>







end
